theory Spec2Isabelle
  imports Complex_Main
begin

section \<open>Vertex welding (src/utils/VertexWelder.ts)\<close>

text \<open>
  Numbers of the position buffer and the threshold angle are modelled as \<open>real\<close>: the
  arithmetic of the source (\<open>Math.sqrt\<close>, \<open>Math.cos\<close>, \<open>Math.round\<close>) is taken at its exact
  mathematical value. Vertex indices of the index buffer are natural numbers. A read of
  the index buffer past its end gives JavaScript's \<open>undefined\<close>; an index value inside the
  welder is therefore a \<open>nat option\<close>, with \<open>None\<close> for \<open>undefined\<close>.
\<close>

subsection \<open>Vector3\<close>

datatype Vector3 = Vector3 (vx: real) (vy: real) (vz: real)

definition distanceTo :: "Vector3 \<Rightarrow> Vector3 \<Rightarrow> real" where
  "distanceTo u v =
     (let dx = vx u - vx v; dy = vy u - vy v; dz = vz u - vz v
      in sqrt (dx * dx + dy * dy + dz * dz))"

definition lengthSq :: "Vector3 \<Rightarrow> real" where
  "lengthSq v = vx v * vx v + vy v * vy v + vz v * vz v"

definition multiplyScalar :: "Vector3 \<Rightarrow> real \<Rightarrow> Vector3" where
  "multiplyScalar v scalar = Vector3 (vx v * scalar) (vy v * scalar) (vz v * scalar)"

definition subVectors :: "Vector3 \<Rightarrow> Vector3 \<Rightarrow> Vector3" where
  "subVectors a b = Vector3 (vx a - vx b) (vy a - vy b) (vz a - vz b)"

definition dot :: "Vector3 \<Rightarrow> Vector3 \<Rightarrow> real" where
  "dot u v = vx u * vx v + vy u * vy v + vz u * vz v"

definition crossVectors :: "Vector3 \<Rightarrow> Vector3 \<Rightarrow> Vector3" where
  "crossVectors a b =
     Vector3 (vy a * vz b - vz a * vy b)
             (vz a * vx b - vx a * vz b)
             (vx a * vy b - vy a * vx b)"

subsection \<open>Reading the buffers\<close>

type_synonym idx = "nat option"
type_synonym edge = "idx \<times> idx"

text \<open>
  \<open>positionAttr[k]\<close> as an argument of \<open>new Vector3(...)\<close>: a read past the end of the
  array is \<open>undefined\<close>, and the constructor's default parameter turns it into 0.
\<close>

definition coord :: "real list \<Rightarrow> nat \<Rightarrow> real" where
  "coord positionAttr k = (if k < length positionAttr then positionAttr ! k else 0)"

text \<open>
  For the index \<open>undefined\<close> the subscript \<open>undefined * 3 + 0\<close> is NaN, the read is
  \<open>undefined\<close> again and all three coordinates default to 0.
\<close>

definition getVertexFromIndexBuffer :: "idx \<Rightarrow> real list \<Rightarrow> Vector3" where
  "getVertexFromIndexBuffer index positionAttr =
     (case index of
        None \<Rightarrow> Vector3 0 0 0
      | Some n \<Rightarrow> Vector3 (coord positionAttr (n * 3 + 0))
                          (coord positionAttr (n * 3 + 1))
                          (coord positionAttr (n * 3 + 2)))"

text \<open>
  The loops \<open>for (i = 0; i < indices.length; i += 3)\<close> read \<open>indices[i]\<close>,
  \<open>indices[i + 1]\<close>, \<open>indices[i + 2]\<close>; in the last round the second and third read may
  fall past the end.
\<close>

fun triangles :: "nat list \<Rightarrow> (idx \<times> idx \<times> idx) list" where
  "triangles [] = []"
| "triangles [a] = [(Some a, None, None)]"
| "triangles [a, b] = [(Some a, Some b, None)]"
| "triangles (a # b # c # rest) = (Some a, Some b, Some c) # triangles rest"

subsection \<open>Hashing and normals\<close>

definition precisionPoints :: nat where
  "precisionPoints = 4"

definition precision :: real where
  "precision = 10 ^ precisionPoints"

text \<open>\<open>Math.round\<close> rounds to the nearest integer, a half upwards.\<close>

definition js_round :: "real \<Rightarrow> int" where
  "js_round r = \<lfloor>r + 1 / 2\<rfloor>"

text \<open>
  The hash string \<open>"rx,ry,rz"\<close> of the source is kept as the triple of the three rounded
  integers: two such strings are equal exactly when the triples are.
\<close>

type_synonym hash = "int \<times> int \<times> int"

definition hashVertex :: "Vector3 \<Rightarrow> hash" where
  "hashVertex v = (js_round (vx v * precision), js_round (vy v * precision),
                   js_round (vz v * precision))"

definition getNormal :: "Vector3 \<Rightarrow> Vector3 \<Rightarrow> Vector3 \<Rightarrow> Vector3" where
  "getNormal a b c =
     (let resultNormal = crossVectors (subVectors c b) (subVectors a b);
          targetLengthSq = lengthSq resultNormal
      in if targetLengthSq > 0
         then multiplyScalar resultNormal (1 / sqrt targetLengthSq)
         else Vector3 0 0 0)"

subsection \<open>computeEdgesToMerge\<close>

record EdgeData =
  e_index0 :: idx
  e_index1 :: idx
  e_normal :: Vector3

text \<open>
  \<open>edgeData\<close> maps an edge key \<open>"hash0_hash1"\<close> (here the pair of the two hashes) to a record
  or to \<open>null\<close>: \<open>None\<close> is an absent key, \<open>Some None\<close> a key set to \<open>null\<close>.
\<close>

type_synonym edgeTable = "hash \<times> hash \<Rightarrow> EdgeData option option"

definition DEG2RAD :: real where
  "DEG2RAD = pi / 180"

definition thresholdDot :: "real \<Rightarrow> real" where
  "thresholdDot thresholdAngle = cos (DEG2RAD * thresholdAngle)"

text \<open>
  One round of the loop over \<open>j\<close>: the edge from vertex \<open>j\<close> (index \<open>ij\<close>, hash \<open>vecHash0\<close>) to
  vertex \<open>jNext\<close> (index \<open>ijNext\<close>, hash \<open>vecHash1\<close>) of a triangle with normal \<open>nrm\<close>.
\<close>

definition matchEdge ::
  "real \<Rightarrow> Vector3 \<Rightarrow> idx \<times> hash \<Rightarrow> idx \<times> hash \<Rightarrow>
   edgeTable \<times> (edge \<times> edge) list \<Rightarrow> edgeTable \<times> (edge \<times> edge) list" where
  "matchEdge thrDot nrm vj vjNext st =
     (let edgeData = fst st; edgesToMerge = snd st;
          vecHash0 = snd vj; vecHash1 = snd vjNext;
          hash = (vecHash0, vecHash1); reverseHash = (vecHash1, vecHash0)
      in case edgeData reverseHash of
           Some (Some d) \<Rightarrow>
             (edgeData(reverseHash := Some None),
              if dot nrm (e_normal d) > thrDot
              then edgesToMerge @ [((e_index0 d, e_index1 d), (fst vj, fst vjNext))]
              else edgesToMerge)
         | _ \<Rightarrow>
             if edgeData hash = None
             then (edgeData(hash := Some (Some
                     \<lparr>e_index0 = fst vj, e_index1 = fst vjNext, e_normal = nrm\<rparr>)),
                   edgesToMerge)
             else st)"

definition degenerate :: "real list \<Rightarrow> idx \<times> idx \<times> idx \<Rightarrow> bool" where
  "degenerate vertices tri =
     (case tri of (i0, i1, i2) \<Rightarrow>
        let h0 = hashVertex (getVertexFromIndexBuffer i0 vertices);
            h1 = hashVertex (getVertexFromIndexBuffer i1 vertices);
            h2 = hashVertex (getVertexFromIndexBuffer i2 vertices)
        in h0 = h1 \<or> h1 = h2 \<or> h2 = h0)"

definition scanTriangle ::
  "real \<Rightarrow> real list \<Rightarrow> idx \<times> idx \<times> idx \<Rightarrow>
   edgeTable \<times> (edge \<times> edge) list \<Rightarrow> edgeTable \<times> (edge \<times> edge) list" where
  "scanTriangle thrDot vertices tri st =
     (case tri of (i0, i1, i2) \<Rightarrow>
        let a = getVertexFromIndexBuffer i0 vertices;
            b = getVertexFromIndexBuffer i1 vertices;
            c = getVertexFromIndexBuffer i2 vertices;
            nrm = getNormal a b c;
            h0 = hashVertex a; h1 = hashVertex b; h2 = hashVertex c
        in if degenerate vertices tri then st
           else matchEdge thrDot nrm (i2, h2) (i0, h0)
                  (matchEdge thrDot nrm (i1, h1) (i2, h2)
                     (matchEdge thrDot nrm (i0, h0) (i1, h1) st)))"

definition computeEdgesToMerge :: "real list \<Rightarrow> nat list \<Rightarrow> real \<Rightarrow> (edge \<times> edge) list" where
  "computeEdgesToMerge vertices indices thresholdAngle =
     snd (fold (scanTriangle (thresholdDot thresholdAngle) vertices) (triangles indices)
            (\<lambda>k. None, []))"

subsection \<open>weldVertices\<close>

datatype error = TypeError

text \<open>
  \<open>mergedMap\<close> is an object whose keys are vertex indices; \<open>fillOutMergeMap\<close> walks it in
  the order of \<open>Object.keys\<close>, so the model keeps the entries in insertion order.
\<close>

type_synonym mergeMap = "(idx \<times> idx list) list"

definition merge :: "idx \<Rightarrow> idx \<Rightarrow> mergeMap \<Rightarrow> mergeMap" where
  "merge i1 i2 mergedMap =
     (if map_of mergedMap i1 = None then mergedMap @ [(i1, [i2])]
      else map (\<lambda>(k, l). if k = i1 then (k, l @ [i2]) else (k, l)) mergedMap)"

definition aliasDeletedVertex :: "idx \<Rightarrow> idx \<Rightarrow> (idx \<Rightarrow> idx option) \<Rightarrow> (idx \<Rightarrow> idx option)" where
  "aliasDeletedVertex deletedVertex remainingVertex vertexAliases =
     (if deletedVertex = remainingVertex then vertexAliases
      else vertexAliases(deletedVertex := Some remainingVertex))"

text \<open>
  \<open>if (vertexAliases[index]) index = vertexAliases[index]\<close>: the test is one of
  truthiness, so a missing entry, the value \<open>undefined\<close> and the value 0 all leave the
  index as it is.
\<close>

definition replaceDeleted :: "(idx \<Rightarrow> idx option) \<Rightarrow> idx \<Rightarrow> idx" where
  "replaceDeleted vertexAliases index =
     (case vertexAliases index of
        Some (Some v) \<Rightarrow> if v = 0 then index else Some v
      | _ \<Rightarrow> index)"

record weldState =
  edgesToMergeMap :: "edge \<Rightarrow> (edge \<times> edge) option"
  mergedMap :: mergeMap
  vertexAliases :: "idx \<Rightarrow> idx option"

text \<open>
  The lookup from the key \<open>"i_j"\<close> of an edge (here the pair of the two indices) to the
  two-element list \<open>[edge1, edge2]\<close> it belongs to, kept as a pair.
\<close>

definition buildEdgesToMergeMap :: "(edge \<times> edge) list \<Rightarrow> (edge \<Rightarrow> (edge \<times> edge) option)" where
  "buildEdgesToMergeMap edgesToMerge =
     fold (\<lambda>edgesList m. (m(fst edgesList := Some edgesList))(snd edgesList := Some edgesList))
          edgesToMerge (\<lambda>k. None)"

text \<open>The body of \<open>for (const edge of edges)\<close>.\<close>

definition processEdge :: "real list \<Rightarrow> edge \<Rightarrow> weldState \<Rightarrow> weldState" where
  "processEdge vertices edge st =
     (let reverseEdge = (snd edge, fst edge);
          isReverse = (edgesToMergeMap st reverseEdge \<noteq> None);
          edgeKeyToUse = (if isReverse then reverseEdge else edge)
      in case edgesToMergeMap st edgeKeyToUse of
           None \<Rightarrow> st
         | Some (possibleEdge1, possibleEdge2) \<Rightarrow>
             let same = ((fst possibleEdge1 = fst edge \<and> snd possibleEdge1 = snd edge) \<or>
                         (fst possibleEdge1 = snd edge \<and> snd possibleEdge1 = fst edge));
                 otherEdge = (if same then possibleEdge2 else possibleEdge1);
                 originalEdge = (if same then possibleEdge1 else possibleEdge2)
             in if fst originalEdge = fst otherEdge \<and> snd originalEdge = snd otherEdge then st
                else
                  let v0 = getVertexFromIndexBuffer (fst originalEdge) vertices;
                      v2 = getVertexFromIndexBuffer (fst otherEdge) vertices;
                      swap = (distanceTo v0 v2 > 1 / 10);
                      index0 = replaceDeleted (vertexAliases st) (fst originalEdge);
                      index1 = replaceDeleted (vertexAliases st) (snd originalEdge);
                      index2 = replaceDeleted (vertexAliases st)
                                 (if swap then snd otherEdge else fst otherEdge);
                      index3 = replaceDeleted (vertexAliases st)
                                 (if swap then fst otherEdge else snd otherEdge)
                  in \<lparr>edgesToMergeMap =
                        ((edgesToMergeMap st)(edgeKeyToUse := None))((index2, index3) := None),
                      mergedMap = merge index1 index3 (merge index0 index2 (mergedMap st)),
                      vertexAliases =
                        aliasDeletedVertex index3 index1
                          (aliasDeletedVertex index2 index0 (vertexAliases st))\<rparr>)"

definition processTriangle :: "real list \<Rightarrow> idx \<times> idx \<times> idx \<Rightarrow> weldState \<Rightarrow> weldState" where
  "processTriangle vertices tri st =
     (case tri of (i1, i2, i3) \<Rightarrow>
        processEdge vertices (i2, i3)
          (processEdge vertices (i1, i3)
             (processEdge vertices (i1, i2) st)))"

definition weldLoop :: "real list \<Rightarrow> nat list \<Rightarrow> real \<Rightarrow> weldState" where
  "weldLoop vertices indices thresholdAngle =
     fold (processTriangle vertices) (triangles indices)
       \<lparr>edgesToMergeMap =
          buildEdgesToMergeMap (computeEdgesToMerge vertices indices thresholdAngle),
        mergedMap = [], vertexAliases = (\<lambda>k. None)\<rparr>"

text \<open>
  \<open>Object.keys\<close>: first the keys that are array indices (integers below \<open>2^32 - 1\<close>) in
  ascending order, then the other keys in insertion order.
\<close>

definition isArrayIndex :: "idx \<Rightarrow> bool" where
  "isArrayIndex k = (case k of None \<Rightarrow> False | Some n \<Rightarrow> n < 4294967295)"

definition objectKeys :: "mergeMap \<Rightarrow> idx list" where
  "objectKeys m =
     map Some (sort (concat (map (\<lambda>k. case k of None \<Rightarrow> [] | Some n \<Rightarrow> [n])
                                 (filter isArrayIndex (map fst m)))))
     @ filter (\<lambda>k. \<not> isArrayIndex k) (map fst m)"

text \<open>
  The loop of \<open>fillOutMergeMap\<close> over the keys. For the key \<open>"undefined"\<close> the source
  computes \<open>Number("undefined")\<close>, which is NaN, reads \<open>mergeMap[NaN]\<close>, which is
  \<open>undefined\<close>, and the \<open>for ... of\<close> over it throws a TypeError.
\<close>

fun fillKeys :: "mergeMap \<Rightarrow> idx list \<Rightarrow> (idx \<Rightarrow> nat option) \<Rightarrow> error + (idx \<Rightarrow> nat option)" where
  "fillKeys mergeMap [] newMergeMap = Inr newMergeMap"
| "fillKeys mergeMap (None # ks) newMergeMap = Inl TypeError"
| "fillKeys mergeMap (Some key # ks) newMergeMap =
     (case map_of mergeMap (Some key) of
        None \<Rightarrow> Inl TypeError
      | Some inds \<Rightarrow>
          fillKeys mergeMap ks (fold (\<lambda>ind m. m(ind := Some key)) inds newMergeMap))"

definition fillOutMergeMap :: "mergeMap \<Rightarrow> error + (idx \<Rightarrow> nat option)" where
  "fillOutMergeMap mergeMap = fillKeys mergeMap (objectKeys mergeMap) (\<lambda>k. None)"

text \<open>The flattened alias table \<open>finalMergeMap\<close> of \<open>weldVertices\<close>.\<close>

definition finalMergeMap :: "real list \<Rightarrow> nat list \<Rightarrow> real \<Rightarrow> error + (idx \<Rightarrow> nat option)" where
  "finalMergeMap vertices indices thresholdAngle =
     fillOutMergeMap (mergedMap (weldLoop vertices indices thresholdAngle))"

definition rewriteIndex :: "(idx \<Rightarrow> nat option) \<Rightarrow> nat \<Rightarrow> nat" where
  "rewriteIndex tbl index = (case tbl (Some index) of None \<Rightarrow> index | Some newIndex \<Rightarrow> newIndex)"

definition weldVertices :: "real list \<Rightarrow> nat list \<Rightarrow> real \<Rightarrow> error + nat list" where
  "weldVertices vertices indices thresholdAngle =
     (case finalMergeMap vertices indices thresholdAngle of
        Inl e \<Rightarrow> Inl e
      | Inr tbl \<Rightarrow> Inr (map (rewriteIndex tbl) indices))"

subsection \<open>Notions used to state the properties\<close>







subsection \<open>Concrete meshes\<close>

text \<open>
  Scenario A, the mesh of tests/VertexWelder.test.ts: two coplanar right triangles whose
  shared edge is duplicated (vertex 3 at the position of vertex 1, vertex 5 at that of
  vertex 2).
\<close>

definition scenarioA_vertices :: "real list" where
  "scenarioA_vertices = [0, 0, 0,  1, 0, 0,  0, 1, 0,  1, 0, 0,  1, 1, 0,  0, 1, 0]"

definition scenarioA_indices :: "nat list" where
  "scenarioA_indices = [0, 1, 2, 3, 4, 5]"

text \<open>
  A flat strip of three triangles with all vertices duplicated, the middle triangle
  (7, 8, 9) last in the buffer. Vertex 0 is not referenced.
\<close>

definition strip_vertices :: "real list" where
  "strip_vertices = [9, 9, 9,  0, 0, 0,  1, 0, 0,  0, 1, 0,  0, 1, 0,  2, 0, 0,  1, 1, 0,
                     0, 1, 0,  1, 0, 0,  2, 0, 0]"


text \<open>
  Three triangles at a corner of the unit cube: (2, 6, 1) and (5, 6, 3) lie in the plane
  \<open>x = 1\<close> and share an edge whose upper end is duplicated (vertices 2 and 3);
  (3, 4, 5) lies in the plane \<open>y = 1\<close> and shares the indices 3 and 5 with the third
  triangle. Vertex 0 is not referenced.
\<close>

definition corner_vertices :: "real list" where
  "corner_vertices = [9, 9, 9,  1, 0, 1,  1, 1, 1,  1, 1, 1,  0, 1, 0,  1, 1, 0,  1, 0, 0]"



subsection \<open>Invariants of the two loops\<close>

text \<open>
  Every index held in a triangle, in a merge pair, in the edge table or in the state of
  the main loop belongs to a given set \<open>S\<close> of index values.
\<close>

definition triIn :: "idx set \<Rightarrow> idx \<times> idx \<times> idx \<Rightarrow> bool" where
  "triIn S tri = (case tri of (a, b, c) \<Rightarrow> a \<in> S \<and> b \<in> S \<and> c \<in> S)"

definition pairIn :: "idx set \<Rightarrow> edge \<times> edge \<Rightarrow> bool" where
  "pairIn S p = (fst (fst p) \<in> S \<and> snd (fst p) \<in> S \<and> fst (snd p) \<in> S \<and> snd (snd p) \<in> S)"

definition tableIn :: "idx set \<Rightarrow> edgeTable \<Rightarrow> bool" where
  "tableIn S ed = (\<forall>k d. ed k = Some (Some d) \<longrightarrow> e_index0 d \<in> S \<and> e_index1 d \<in> S)"

definition scanIn :: "idx set \<Rightarrow> edgeTable \<times> (edge \<times> edge) list \<Rightarrow> bool" where
  "scanIn S st = (tableIn S (fst st) \<and> (\<forall>p \<in> set (snd st). pairIn S p))"

definition stateIn :: "idx set \<Rightarrow> weldState \<Rightarrow> bool" where
  "stateIn S st =
     ((\<forall>k p. edgesToMergeMap st k = Some p \<longrightarrow> pairIn S p) \<and>
      (\<forall>k \<in> set (map fst (mergedMap st)). k \<in> S) \<and>
      (\<forall>k v. vertexAliases st k = Some v \<longrightarrow> v \<in> S))"


section \<open>Surface segmentation\<close>

text \<open>
  Modelled from the spec: the Surface Segmenter (class \<open>FindSurfaces\<close> with its counter
  \<open>surfaceId\<close> and its method \<open>getSurfaceIdAttribute\<close>). Its file is not among the
  sources; only its test and its caller in \<open>OutlineEffect\<close> are. The model follows the
  component design of the spec: triangles are visited in order; from each triangle not
  visited before, a flood fill through triangles adjacent across a smooth edge collects a
  surface; the vertices of every triangle of the surface are labelled with the current
  identifier; then the identifier is incremented. The counter is owned by the segmenter
  and lives on across calls. Which edges are smooth is an external contract: a mesh carries
  the adjacency as a predicate on triangle numbers. The packing of the identifier into
  four components per vertex is not modelled; the attribute is the list of the
  identifiers of the vertices (\<open>None\<close> for a vertex of no triangle).
\<close>











section \<open>Evaluating the welder on concrete meshes\<close>

lemma js_round_of_int: "js_round (of_int n) = n"
  by (simp add: js_round_def)

lemma js_round_numerals [simp]:
  "js_round 0 = 0" "js_round 1 = 1" "js_round (numeral k) = numeral k"
  "js_round (- numeral k) = - numeral k" "js_round (- 1) = - 1"
  using js_round_of_int[of 0] js_round_of_int[of 1] js_round_of_int[of "numeral k"]
    js_round_of_int[of "- numeral k"] js_round_of_int[of "- 1"]
  by simp_all

lemma precision_eq [simp]: "precision = 10000"
  by (simp add: precision_def precisionPoints_def)

lemma thresholdDot_less_one:
  assumes "0 < t" and "t \<le> 180"
  shows "thresholdDot t < 1"
proof -
  have "0 < DEG2RAD * t"
    using assms by (simp add: DEG2RAD_def)
  moreover have "DEG2RAD * t \<le> pi"
    using assms pi_gt_zero by (simp add: DEG2RAD_def)
  ultimately have "cos (DEG2RAD * t) < cos 0"
    by (intro cos_monotone_0_pi) simp_all
  then show ?thesis
    by (simp add: thresholdDot_def)
qed


lemma thresholdDot_1: "thresholdDot 1 < 1"
  by (rule thresholdDot_less_one) simp_all



lemma sqrt_gt_tenth: "sqrt s > 1 / 10 \<longleftrightarrow> s > 1 / 100"
proof -
  have e: "sqrt (1 / 100) = 1 / 10"
    using real_sqrt_abs[of "1 / 10"] by (simp add: power2_eq_square)
  have "sqrt (1 / 100) < sqrt s \<longleftrightarrow> 1 / 100 < s"
    by (rule real_sqrt_less_iff)
  then show ?thesis
    by (simp only: e)
qed

lemma distanceTo_gt:
  "distanceTo u v > 1 / 10 \<longleftrightarrow>
   (vx u - vx v) * (vx u - vx v) + (vy u - vy v) * (vy u - vy v)
     + (vz u - vz v) * (vz u - vz v) > 1 / 100"
  unfolding distanceTo_def Let_def by (rule sqrt_gt_tenth)

lemma distanceTo_gt_normal:
  "1 < distanceTo u v * 10 \<longleftrightarrow>
   (vx u - vx v) * (vx u - vx v) + (vy u - vy v) * (vy u - vy v)
     + (vz u - vz v) * (vz u - vz v) > 1 / 100"
  using distanceTo_gt[of u v] by simp

lemmas geometry_defs =
  getNormal_def crossVectors_def subVectors_def lengthSq_def multiplyScalar_def dot_def
  hashVertex_def

lemmas scan_defs =
  computeEdgesToMerge_def scanTriangle_def degenerate_def geometry_defs matchEdge_def Let_def

lemmas step_defs =
  buildEdgesToMergeMap_def processTriangle_def processEdge_def Let_def
  distanceTo_gt distanceTo_gt_normal replaceDeleted_def merge_def aliasDeletedVertex_def

lemmas fill_defs =
  fillOutMergeMap_def objectKeys_def isArrayIndex_def rewriteIndex_def

subsection \<open>Scenario A\<close>

lemma scenarioA_vertex [simp]:
  "getVertexFromIndexBuffer (Some 0) scenarioA_vertices = Vector3 0 0 0"
  "getVertexFromIndexBuffer (Some 1) scenarioA_vertices = Vector3 1 0 0"
  "getVertexFromIndexBuffer (Some (Suc 0)) scenarioA_vertices = Vector3 1 0 0"
  "getVertexFromIndexBuffer (Some 2) scenarioA_vertices = Vector3 0 1 0"
  "getVertexFromIndexBuffer (Some 3) scenarioA_vertices = Vector3 1 0 0"
  "getVertexFromIndexBuffer (Some 4) scenarioA_vertices = Vector3 1 1 0"
  "getVertexFromIndexBuffer (Some 5) scenarioA_vertices = Vector3 0 1 0"
  "getVertexFromIndexBuffer None scenarioA_vertices = Vector3 0 0 0"
  by (simp_all add: getVertexFromIndexBuffer_def coord_def scenarioA_vertices_def)

lemma scenarioA_edges:
  "computeEdgesToMerge scenarioA_vertices scenarioA_indices 1 =
     [((Some 1, Some 2), (Some 5, Some 3))]"
  using thresholdDot_1 by (simp add: scan_defs scenarioA_indices_def)

lemma scenarioA_loop:
  "weldLoop scenarioA_vertices scenarioA_indices 1 =
     \<lparr>edgesToMergeMap = (\<lambda>k. None),
      mergedMap = [(Some 1, [Some 3, Some 1]), (Some 2, [Some 5, Some 2])],
      vertexAliases = ((\<lambda>k. None)(Some 3 := Some (Some 1)))(Some 5 := Some (Some 2))\<rparr>"
  unfolding weldLoop_def scenarioA_edges
  by (simp add: step_defs scenarioA_indices_def)

lemma scenarioA_mergedMap:
  "mergedMap (weldLoop scenarioA_vertices scenarioA_indices 1) =
     [(Some 1, [Some 3, Some 1]), (Some 2, [Some 5, Some 2])]"
  unfolding scenarioA_loop by simp

section \<open>General lemmas about the welder\<close>

subsection \<open>The indices of the loops stay among those of the input\<close>

lemma matchEdge_scanIn:
  assumes "scanIn S st" and "fst vj \<in> S" and "fst vjNext \<in> S"
  shows "scanIn S (matchEdge thr nrm vj vjNext st)"
proof -
  obtain ed es where st: "st = (ed, es)" by (cases st)
  have tab: "\<And>k d. ed k = Some (Some d) \<Longrightarrow> e_index0 d \<in> S \<and> e_index1 d \<in> S"
    and prs: "\<And>p. p \<in> set es \<Longrightarrow> pairIn S p"
    using assms(1) by (auto simp: st scanIn_def tableIn_def)
  show ?thesis
  proof (cases "\<exists>d. ed (snd vjNext, snd vj) = Some (Some d)")
    case True
    then obtain d where d: "ed (snd vjNext, snd vj) = Some (Some d)" by blast
    have "pairIn S ((e_index0 d, e_index1 d), (fst vj, fst vjNext))"
      using tab[OF d] assms(2,3) by (simp add: pairIn_def)
    then show ?thesis
      using d tab prs by (simp add: st matchEdge_def Let_def scanIn_def tableIn_def)
  next
    case False
    then consider "ed (snd vjNext, snd vj) = None" | "ed (snd vjNext, snd vj) = Some None"
      by (cases "ed (snd vjNext, snd vj)") auto
    then have m: "matchEdge thr nrm vj vjNext st =
        (if ed (snd vj, snd vjNext) = None
         then (ed((snd vj, snd vjNext) := Some (Some
                 \<lparr>e_index0 = fst vj, e_index1 = fst vjNext, e_normal = nrm\<rparr>)), es)
         else st)"
      by cases (simp_all add: st matchEdge_def Let_def)
    show ?thesis
      unfolding m using tab prs assms(2,3) by (simp add: st scanIn_def tableIn_def)
  qed
qed

lemma scanTriangle_scanIn:
  assumes "scanIn S st" and "triIn S tri"
  shows "scanIn S (scanTriangle thr vs tri st)"
proof -
  obtain a b c where tri: "tri = (a, b, c)" by (cases tri)
  with assms(2) have "a \<in> S" "b \<in> S" "c \<in> S" by (simp_all add: triIn_def)
  then show ?thesis
    using assms(1) by (simp add: tri scanTriangle_def Let_def matchEdge_scanIn)
qed

lemma fold_scanTriangle_scanIn:
  assumes "\<forall>tri \<in> set ts. triIn S tri" and "scanIn S st"
  shows "scanIn S (fold (scanTriangle thr vs) ts st)"
  using assms by (induction ts arbitrary: st) (simp_all add: scanTriangle_scanIn)

lemma triIn_mono: "triIn S tri \<Longrightarrow> S \<subseteq> T \<Longrightarrow> triIn T tri"
  by (cases tri) (auto simp: triIn_def)

lemma triangles_in_general:
  "\<forall>tri \<in> set (triangles xs). triIn (insert None (Some ` set xs)) tri"
proof (induction xs rule: triangles.induct)
  case (4 a b c rest)
  have "triIn (insert None (Some ` set (a # b # c # rest))) tri"
    if "tri \<in> set (triangles rest)" for tri
    using 4 that by (auto intro: triIn_mono)
  then show ?case by (simp add: triIn_def)
qed (simp_all add: triIn_def)




lemma computeEdgesToMerge_in:
  assumes "\<forall>tri \<in> set (triangles xs). triIn S tri"
  shows "\<forall>p \<in> set (computeEdgesToMerge vs xs t). pairIn S p"
proof -
  have "scanIn S (\<lambda>k. None, [])" by (simp add: scanIn_def tableIn_def)
  with assms have "scanIn S (fold (scanTriangle (thresholdDot t) vs) (triangles xs) (\<lambda>k. None, []))"
    by (rule fold_scanTriangle_scanIn)
  then show ?thesis by (simp add: computeEdgesToMerge_def scanIn_def)
qed


lemma fold_edgesList_in:
  assumes "\<forall>p \<in> set es. pairIn S p" and "\<forall>k p. m k = Some p \<longrightarrow> pairIn S p"
  shows "\<forall>k p. fold (\<lambda>edgesList m. (m(fst edgesList := Some edgesList))
                       (snd edgesList := Some edgesList)) es m k = Some p \<longrightarrow> pairIn S p"
  using assms
proof (induction es arbitrary: m)
  case Nil
  then show ?case by simp
next
  case (Cons e es)
  have e: "pairIn S e" using Cons.prems(1) by simp
  have "\<forall>k p. ((m(fst e := Some e))(snd e := Some e)) k = Some p \<longrightarrow> pairIn S p"
    using Cons.prems(2) e by (auto split: if_splits)
  moreover have "\<forall>p \<in> set es. pairIn S p"
    using Cons.prems(1) by simp
  ultimately have "\<forall>k p. fold (\<lambda>edgesList m. (m(fst edgesList := Some edgesList))
        (snd edgesList := Some edgesList)) es ((m(fst e := Some e))(snd e := Some e)) k = Some p
        \<longrightarrow> pairIn S p"
    by (rule Cons.IH[rotated])
  then show ?case by (simp only: fold_Cons comp_apply)
qed

lemma buildEdgesToMergeMap_in:
  assumes "\<forall>p \<in> set es. pairIn S p" and "buildEdgesToMergeMap es k = Some p"
  shows "pairIn S p"
  using fold_edgesList_in[OF assms(1), of "\<lambda>k. None"] assms(2)
  unfolding buildEdgesToMergeMap_def by blast

lemma replaceDeleted_in:
  assumes "\<forall>k v. va k = Some v \<longrightarrow> v \<in> S" and "i \<in> S"
  shows "replaceDeleted va i \<in> S"
proof (cases "va i")
  case None
  then show ?thesis using assms(2) by (simp add: replaceDeleted_def)
next
  case (Some v)
  then have "v \<in> S" using assms(1) by blast
  then show ?thesis
    using Some assms(2) by (cases v) (simp_all add: replaceDeleted_def)
qed

lemma set_keys_merge: "set (map fst (merge i1 i2 m)) = insert i1 (set (map fst m))"
proof (cases "map_of m i1")
  case None
  then show ?thesis by (simp add: merge_def)
next
  case (Some l)
  then have "i1 \<in> set (map fst m)"
    by (metis map_of_eq_None_iff option.distinct(1) set_map)
  moreover have "map fst (map (\<lambda>(k, l). if k = i1 then (k, l @ [i2]) else (k, l)) m) = map fst m"
    by (induction m) auto
  ultimately show ?thesis
    using Some by (auto simp: merge_def)
qed

lemma aliasDeletedVertex_in:
  assumes "\<forall>k v. va k = Some v \<longrightarrow> v \<in> S" and "r \<in> S"
  shows "\<forall>k v. aliasDeletedVertex d r va k = Some v \<longrightarrow> v \<in> S"
  using assms by (simp add: aliasDeletedVertex_def)



lemma processEdge_None:
  assumes "edgesToMergeMap st (if edgesToMergeMap st (snd e, fst e) \<noteq> None then (snd e, fst e) else e) = None"
  shows "processEdge vs e st = st"
  using assms by (simp only: processEdge_def Let_def option.case)

lemma processEdge_Some:
  assumes "edgesToMergeMap st (if edgesToMergeMap st (snd e, fst e) \<noteq> None then (snd e, fst e) else e) = Some (p1, p2)"
    and "same \<longleftrightarrow> (fst p1 = fst e \<and> snd p1 = snd e) \<or> (fst p1 = snd e \<and> snd p1 = fst e)"
    and "other = (if same then p2 else p1)"
    and "orig = (if same then p1 else p2)"
    and "swap \<longleftrightarrow> distanceTo (getVertexFromIndexBuffer (fst orig) vs)
        (getVertexFromIndexBuffer (fst other) vs) > 1 / 10"
    and "i0 = replaceDeleted (vertexAliases st) (fst orig)"
    and "i1 = replaceDeleted (vertexAliases st) (snd orig)"
    and "i2 = replaceDeleted (vertexAliases st) (if swap then snd other else fst other)"
    and "i3 = replaceDeleted (vertexAliases st) (if swap then fst other else snd other)"
  shows "processEdge vs e st =
       (if fst orig = fst other \<and> snd orig = snd other then st
        else \<lparr>edgesToMergeMap = ((edgesToMergeMap st)
                 ((if edgesToMergeMap st (snd e, fst e) \<noteq> None then (snd e, fst e) else e) := None))
                 ((i2, i3) := None),
              mergedMap = merge i1 i3 (merge i0 i2 (mergedMap st)),
              vertexAliases = aliasDeletedVertex i3 i1
                 (aliasDeletedVertex i2 i0 (vertexAliases st))\<rparr>)"
  unfolding assms(2-9)
  by (simp only: processEdge_def Let_def assms(1) option.case prod.case)


lemma processEdge_shape:
  "processEdge vs e st = st \<or>
   (\<exists>key p orig other i0 i1 i2 i3.
      edgesToMergeMap st key = Some p \<and>
      orig \<in> {fst p, snd p} \<and> other \<in> {fst p, snd p} \<and>
      i0 = replaceDeleted (vertexAliases st) (fst orig) \<and>
      i1 = replaceDeleted (vertexAliases st) (snd orig) \<and>
      i2 \<in> replaceDeleted (vertexAliases st) ` {fst other, snd other} \<and>
      i3 \<in> replaceDeleted (vertexAliases st) ` {fst other, snd other} \<and>
      processEdge vs e st =
        \<lparr>edgesToMergeMap = ((edgesToMergeMap st)(key := None))((i2, i3) := None),
         mergedMap = merge i1 i3 (merge i0 i2 (mergedMap st)),
         vertexAliases = aliasDeletedVertex i3 i1
            (aliasDeletedVertex i2 i0 (vertexAliases st))\<rparr>)"
proof -
  define key where "key = (if edgesToMergeMap st (snd e, fst e) \<noteq> None then (snd e, fst e) else e)"
  show ?thesis
  proof (cases "edgesToMergeMap st key")
    case None
    then have "processEdge vs e st = st"
      unfolding key_def by (rule processEdge_None)
    then show ?thesis ..
  next
    case (Some p)
    obtain p1 p2 where p: "p = (p1, p2)" by (cases p)
    define same where "same \<longleftrightarrow> (fst p1 = fst e \<and> snd p1 = snd e) \<or> (fst p1 = snd e \<and> snd p1 = fst e)"
    define other where "other = (if same then p2 else p1)"
    define orig where "orig = (if same then p1 else p2)"
    define swap where "swap \<longleftrightarrow> distanceTo (getVertexFromIndexBuffer (fst orig) vs)
        (getVertexFromIndexBuffer (fst other) vs) > 1 / 10"
    define i0 where "i0 = replaceDeleted (vertexAliases st) (fst orig)"
    define i1 where "i1 = replaceDeleted (vertexAliases st) (snd orig)"
    define i2 where "i2 = replaceDeleted (vertexAliases st) (if swap then snd other else fst other)"
    define i3 where "i3 = replaceDeleted (vertexAliases st) (if swap then fst other else snd other)"
    have pe: "processEdge vs e st =
       (if fst orig = fst other \<and> snd orig = snd other then st
        else \<lparr>edgesToMergeMap = ((edgesToMergeMap st)(key := None))((i2, i3) := None),
              mergedMap = merge i1 i3 (merge i0 i2 (mergedMap st)),
              vertexAliases = aliasDeletedVertex i3 i1
                 (aliasDeletedVertex i2 i0 (vertexAliases st))\<rparr>)"
      unfolding key_def
      by (rule processEdge_Some[OF Some[unfolded key_def p] same_def other_def orig_def swap_def
            i0_def i1_def i2_def i3_def])
    show ?thesis
    proof (cases "fst orig = fst other \<and> snd orig = snd other")
      case True
      then have "processEdge vs e st = st" unfolding pe by simp
      then show ?thesis ..
    next
      case False
      then have r: "processEdge vs e st =
         \<lparr>edgesToMergeMap = ((edgesToMergeMap st)(key := None))((i2, i3) := None),
              mergedMap = merge i1 i3 (merge i0 i2 (mergedMap st)),
              vertexAliases = aliasDeletedVertex i3 i1
                 (aliasDeletedVertex i2 i0 (vertexAliases st))\<rparr>"
        unfolding pe by auto
      have o: "orig \<in> {fst p, snd p}" "other \<in> {fst p, snd p}"
        by (simp_all add: orig_def other_def p)
      have i: "i2 \<in> replaceDeleted (vertexAliases st) ` {fst other, snd other}"
          "i3 \<in> replaceDeleted (vertexAliases st) ` {fst other, snd other}"
        by (simp_all add: i2_def i3_def)
      show ?thesis
        using Some o i0_def i1_def i r by blast
    qed
  qed
qed


lemma processEdge_stateIn:
  assumes "stateIn S st"
  shows "stateIn S (processEdge vs e st)"
proof -
  have em: "\<And>k p. edgesToMergeMap st k = Some p \<Longrightarrow> pairIn S p"
    and keys: "\<forall>k \<in> set (map fst (mergedMap st)). k \<in> S"
    and va: "\<forall>k v. vertexAliases st k = Some v \<longrightarrow> v \<in> S"
    using assms by (auto simp: stateIn_def)
  from processEdge_shape[of vs e st] show ?thesis
  proof
    assume "processEdge vs e st = st"
    then show ?thesis using assms by simp
  next
    assume "\<exists>key p orig other i0 i1 i2 i3.
      edgesToMergeMap st key = Some p \<and>
      orig \<in> {fst p, snd p} \<and> other \<in> {fst p, snd p} \<and>
      i0 = replaceDeleted (vertexAliases st) (fst orig) \<and>
      i1 = replaceDeleted (vertexAliases st) (snd orig) \<and>
      i2 \<in> replaceDeleted (vertexAliases st) ` {fst other, snd other} \<and>
      i3 \<in> replaceDeleted (vertexAliases st) ` {fst other, snd other} \<and>
      processEdge vs e st =
        \<lparr>edgesToMergeMap = ((edgesToMergeMap st)(key := None))((i2, i3) := None),
         mergedMap = merge i1 i3 (merge i0 i2 (mergedMap st)),
         vertexAliases = aliasDeletedVertex i3 i1
            (aliasDeletedVertex i2 i0 (vertexAliases st))\<rparr>"
    then obtain key p orig other i0 i1 i2 i3 where
      p: "edgesToMergeMap st key = Some p" and
      o: "orig \<in> {fst p, snd p}" and
      i0: "i0 = replaceDeleted (vertexAliases st) (fst orig)" and
      i1: "i1 = replaceDeleted (vertexAliases st) (snd orig)" and
      r: "processEdge vs e st =
        \<lparr>edgesToMergeMap = ((edgesToMergeMap st)(key := None))((i2, i3) := None),
         mergedMap = merge i1 i3 (merge i0 i2 (mergedMap st)),
         vertexAliases = aliasDeletedVertex i3 i1
            (aliasDeletedVertex i2 i0 (vertexAliases st))\<rparr>"
      by blast
    have "pairIn S p" using em[OF p] .
    then have "fst orig \<in> S" "snd orig \<in> S"
      using o by (auto simp: pairIn_def)
    then have iin: "i0 \<in> S" "i1 \<in> S"
      using replaceDeleted_in[OF va] by (simp_all add: i0 i1)
    have a: "\<forall>k v. aliasDeletedVertex i3 i1 (aliasDeletedVertex i2 i0 (vertexAliases st)) k = Some v
        \<longrightarrow> v \<in> S"
      by (intro aliasDeletedVertex_in va iin)
    have b: "\<forall>k \<in> set (map fst (merge i1 i3 (merge i0 i2 (mergedMap st)))). k \<in> S"
      unfolding set_keys_merge using keys iin by simp
    have c: "\<forall>k q. (((edgesToMergeMap st)(key := None))((i2, i3) := None)) k = Some q
        \<longrightarrow> pairIn S q"
      using em by (auto split: if_splits)
    show ?thesis
      unfolding r stateIn_def weldState.simps using a b c by blast
  qed
qed

lemma processTriangle_stateIn:
  "stateIn S st \<Longrightarrow> stateIn S (processTriangle vs tri st)"
  by (cases tri) (simp add: processTriangle_def processEdge_stateIn)

lemma fold_processTriangle_stateIn:
  "stateIn S st \<Longrightarrow> stateIn S (fold (processTriangle vs) ts st)"
  by (induction ts arbitrary: st) (simp_all add: processTriangle_stateIn)

lemma weldLoop_keys_in:
  assumes "\<forall>tri \<in> set (triangles xs). triIn S tri"
  shows "set (map fst (mergedMap (weldLoop vs xs t))) \<subseteq> S"
proof -
  have "stateIn S \<lparr>edgesToMergeMap = buildEdgesToMergeMap (computeEdgesToMerge vs xs t),
                    mergedMap = [], vertexAliases = (\<lambda>k. None)\<rparr>"
    using buildEdgesToMergeMap_in[OF computeEdgesToMerge_in[OF assms]]
    by (auto simp: stateIn_def)
  then have "stateIn S (weldLoop vs xs t)"
    unfolding weldLoop_def by (rule fold_processTriangle_stateIn)
  then show ?thesis by (auto simp: stateIn_def)
qed


lemma fold_fill_apply:
  "fold (\<lambda>ind m. m(ind := Some key)) inds new a = (if a \<in> set inds then Some key else new a)"
  by (induction inds arbitrary: new) auto


lemma fillKeys_value:
  assumes "fillKeys mm ks new = Inr tbl" and "tbl a = Some b"
  shows "new a = Some b \<or> (Some b \<in> set ks \<and> (\<exists>l. map_of mm (Some b) = Some l \<and> a \<in> set l))"
  using assms
proof (induction ks arbitrary: new)
  case Nil
  then show ?case by simp
next
  case (Cons k ks)
  then obtain key where k: "k = Some key" by (cases k) auto
  from Cons.prems(1) obtain inds where inds: "map_of mm (Some key) = Some inds"
    and rest: "fillKeys mm ks (fold (\<lambda>ind m. m(ind := Some key)) inds new) = Inr tbl"
    by (auto simp: k split: option.splits)
  from Cons.IH[OF rest Cons.prems(2)]
  consider "fold (\<lambda>ind m. m(ind := Some key)) inds new a = Some b"
    | "Some b \<in> set ks \<and> (\<exists>l. map_of mm (Some b) = Some l \<and> a \<in> set l)"
    by blast
  then show ?case
  proof cases
    case 1
    then show ?thesis
      using inds by (auto simp: fold_fill_apply k split: if_splits)
  next
    case 2
    then show ?thesis by simp
  qed
qed

lemma set_objectKeys: "set (objectKeys m) = set (map fst m)"
proof -
  have "set (map Some (sort (concat (map (\<lambda>k. case k of None \<Rightarrow> [] | Some n \<Rightarrow> [n])
          (filter isArrayIndex (map fst m)))))) = {k \<in> set (map fst m). isArrayIndex k}"
    by (auto simp: isArrayIndex_def split: option.splits)
  then show ?thesis
    unfolding objectKeys_def by auto
qed

lemma finalMergeMap_value:
  assumes "finalMergeMap vs xs t = Inr tbl" and "tbl a = Some b"
  shows "Some b \<in> set (map fst (mergedMap (weldLoop vs xs t)))"
  using fillKeys_value[OF assms(1)[unfolded finalMergeMap_def fillOutMergeMap_def] assms(2)]
  by (simp add: set_objectKeys)



subsection \<open>Degenerate triangles and runs without merge pairs\<close>










subsection \<open>Scenario A, continued\<close>

lemma scenarioA_final:
  "finalMergeMap scenarioA_vertices scenarioA_indices 1 =
     Inr ((\<lambda>k. None)(Some 3 := Some 1, Some 1 := Some 1, Some 5 := Some 2, Some 2 := Some 2))"
  unfolding finalMergeMap_def scenarioA_mergedMap
  by (simp add: fill_defs)

lemma scenarioA_weld:
  "weldVertices scenarioA_vertices scenarioA_indices 1 = Inr [0, 1, 2, 1, 4, 2]"
  unfolding weldVertices_def scenarioA_final
  by (simp add: rewriteIndex_def scenarioA_indices_def)





lemma scenarioA_edges_again:
  "computeEdgesToMerge scenarioA_vertices [0, 1, 2, 1, 4, 2] 1 =
     [((Some 1, Some 2), (Some 2, Some 1))]"
  using thresholdDot_1 by (simp add: scan_defs)

lemma scenarioA_mergedMap_again:
  "mergedMap (weldLoop scenarioA_vertices [0, 1, 2, 1, 4, 2] 1) =
     [(Some 1, [Some 1]), (Some 2, [Some 2])]"
  unfolding weldLoop_def scenarioA_edges_again
  by (simp add: step_defs)

lemma scenarioA_weld_again:
  "weldVertices scenarioA_vertices [0, 1, 2, 1, 4, 2] 1 = Inr [0, 1, 2, 1, 4, 2]"
  unfolding weldVertices_def finalMergeMap_def scenarioA_mergedMap_again
  by (simp add: fill_defs)

subsection \<open>The strip\<close>

lemma strip_vertex [simp]:
  "getVertexFromIndexBuffer (Some 1) strip_vertices = Vector3 0 0 0"
  "getVertexFromIndexBuffer (Some (Suc 0)) strip_vertices = Vector3 0 0 0"
  "getVertexFromIndexBuffer (Some 2) strip_vertices = Vector3 1 0 0"
  "getVertexFromIndexBuffer (Some 3) strip_vertices = Vector3 0 1 0"
  "getVertexFromIndexBuffer (Some 4) strip_vertices = Vector3 0 1 0"
  "getVertexFromIndexBuffer (Some 5) strip_vertices = Vector3 2 0 0"
  "getVertexFromIndexBuffer (Some 6) strip_vertices = Vector3 1 1 0"
  "getVertexFromIndexBuffer (Some 7) strip_vertices = Vector3 0 1 0"
  "getVertexFromIndexBuffer (Some 8) strip_vertices = Vector3 1 0 0"
  "getVertexFromIndexBuffer (Some 9) strip_vertices = Vector3 2 0 0"
  by (simp_all add: getVertexFromIndexBuffer_def coord_def strip_vertices_def)







subsection \<open>The corner\<close>

lemma corner_vertex [simp]:
  "getVertexFromIndexBuffer (Some 1) corner_vertices = Vector3 1 0 1"
  "getVertexFromIndexBuffer (Some (Suc 0)) corner_vertices = Vector3 1 0 1"
  "getVertexFromIndexBuffer (Some 2) corner_vertices = Vector3 1 1 1"
  "getVertexFromIndexBuffer (Some 3) corner_vertices = Vector3 1 1 1"
  "getVertexFromIndexBuffer (Some 4) corner_vertices = Vector3 0 1 0"
  "getVertexFromIndexBuffer (Some 5) corner_vertices = Vector3 1 1 0"
  "getVertexFromIndexBuffer (Some 6) corner_vertices = Vector3 1 0 0"
  by (simp_all add: getVertexFromIndexBuffer_def coord_def corner_vertices_def)







subsection \<open>The alias table and the merge map\<close>



subsection \<open>Buffers whose matched edges already share their indices\<close>











subsection \<open>The threshold test\<close>






section \<open>Lemmas about the segmenter\<close>








section \<open>The claims\<close>

text \<open>
  C1. Scenario A: for the two coplanar right triangles with duplicated shared-edge
  vertices, the index buffer [0,1,2,3,4,5] and a threshold of 1 degree, \<open>weldVertices\<close>
  returns exactly [0,1,2,1,4,2].
\<close>

theorem C1_scenarioA:
  "weldVertices scenarioA_vertices scenarioA_indices 1 = Inr [0, 1, 2, 1, 4, 2]"
  by (rule scenarioA_weld)







text \<open>
  C4. Where the flattened alias table exists, \<open>weldVertices\<close> returns a buffer of the
  same length whose entry at every position is the table's representative of the input
  index at that position when the index is in the table, and the input index otherwise;
  so equal input indices are rewritten to equal values.
\<close>

theorem C4_rewrite:
  assumes "finalMergeMap vs xs t = Inr tbl"
  shows "\<exists>out. weldVertices vs xs t = Inr out \<and> length out = length xs \<and>
           (\<forall>i < length xs. out ! i =
              (case tbl (Some (xs ! i)) of Some r \<Rightarrow> r | None \<Rightarrow> xs ! i)) \<and>
           (\<forall>i < length xs. \<forall>j < length xs. xs ! i = xs ! j \<longrightarrow> out ! i = out ! j)"
proof -
  have "weldVertices vs xs t = Inr (map (rewriteIndex tbl) xs)"
    using assms by (simp add: weldVertices_def)
  then show ?thesis
    by (simp add: rewriteIndex_def split: option.splits)
qed

theorem C4_witness:
  "finalMergeMap scenarioA_vertices scenarioA_indices 1 =
     Inr ((\<lambda>k. None)(Some 3 := Some 1, Some 1 := Some 1, Some 5 := Some 2, Some 2 := Some 2)) \<and>
   (\<exists>out. weldVertices scenarioA_vertices scenarioA_indices 1 = Inr out \<and>
          length out = 6 \<and> out ! 3 = 1 \<and> out ! 4 = 4)"
proof -
  from C4_rewrite[OF scenarioA_final] obtain out where
    w: "weldVertices scenarioA_vertices scenarioA_indices 1 = Inr out" and
    l: "length out = length scenarioA_indices" and
    v: "\<forall>i < length scenarioA_indices. out ! i =
          (case ((\<lambda>k. None)(Some 3 := Some 1, Some 1 := Some 1, Some 5 := Some 2, Some 2 := Some 2))
                  (Some (scenarioA_indices ! i)) of Some r \<Rightarrow> r | None \<Rightarrow> scenarioA_indices ! i)"
    by blast
  have "out ! 3 = 1" "out ! 4 = 4"
    using v[rule_format, of 3] v[rule_format, of 4] by (simp_all add: scenarioA_indices_def)
  then show ?thesis
    using w l scenarioA_final by (auto simp: scenarioA_indices_def)
qed















text \<open>
  C10. Every value of the index buffer that \<open>weldVertices\<close> returns occurs in the input
  index buffer.
\<close>

theorem C10_no_new_index:
  assumes "weldVertices vs xs t = Inr out"
  shows "set out \<subseteq> set xs"
proof -
  from assms obtain tbl where tbl: "finalMergeMap vs xs t = Inr tbl"
    and out: "out = map (rewriteIndex tbl) xs"
    by (auto simp: weldVertices_def split: sum.splits)
  have keys: "set (map fst (mergedMap (weldLoop vs xs t))) \<subseteq> insert None (Some ` set xs)"
    by (rule weldLoop_keys_in[OF triangles_in_general])
  have "rewriteIndex tbl i \<in> set xs" if "i \<in> set xs" for i
  proof (cases "tbl (Some i)")
    case None
    then show ?thesis using that by (simp add: rewriteIndex_def)
  next
    case (Some b)
    then have "Some b \<in> insert None (Some ` set xs)"
      using finalMergeMap_value[OF tbl] keys by blast
    then show ?thesis using Some by (auto simp: rewriteIndex_def)
  qed
  then show ?thesis by (auto simp: out)
qed

theorem C10_witness:
  "weldVertices scenarioA_vertices scenarioA_indices 1 = Inr [0, 1, 2, 1, 4, 2] \<and>
   set [0, 1, 2, 1, 4, 2] \<subseteq> set scenarioA_indices"
  using C10_no_new_index[OF scenarioA_weld] scenarioA_weld by blast

end
